theory Spec2Isabelle
  imports Main
begin

section \<open>Data model of the exporter base class (abcexporter.py)\<close>

text \<open>
  The objects handled by \<^verbatim>\<open>ABCExporter\<close> are database entities. Only the attributes the
  exporter reads are kept. Identifiers and file paths are strings, classes are
  identified by their name.
\<close>

type_synonym gid = string
type_synonym path = string
type_synonym cls = string

text \<open>
  The exceptions that can leave the methods: the implicit ones of the Python code
  (indexing an empty list, reading an attribute of \<^verbatim>\<open>None\<close>, exceeding the interpreter's
  recursion limit), the explicit \<^verbatim>\<open>ExportException\<close>, and whatever a collaborator
  (database, storage) raises.
\<close>

datatype exn =
    IndexError
  | AttributeError
  | ExportException string
  | RecursionError
  | CollaboratorError string

text \<open>An operation row: \<^verbatim>\<open>op.fk_operation_group\<close> and \<^verbatim>\<open>op.view_model_gid\<close>.\<close>

record operation =
  fk_operation_group :: "int option"
  view_model_gid :: gid

text \<open>
  An entity. \<^verbatim>\<open>mro\<close> lists the names of the classes of the object (its own class and all
  its bases), so that \<^verbatim>\<open>isinstance(x, C)\<close> is membership of \<^verbatim>\<open>C\<close> in it. The fields
  \<open>type_attr\<close> and \<open>fk_source_gid\<close> are the attributes tested with \<^verbatim>\<open>hasattr\<close>: \<open>None\<close> is
  "no such attribute". The attribute \<^verbatim>\<open>fk_source_gid\<close>, when present, holds a gid or
  \<^verbatim>\<open>None\<close>: \<open>Some None\<close> is "attribute present, value \<^verbatim>\<open>None\<close>".
\<close>

record entity =
  mro :: "cls list"
  id_attr :: int
  gid :: gid
  type_attr :: "string option"
  fk_source_gid :: "gid option option"
  fk_from_operation :: int
  parent_operation :: "operation option"

text \<open>A Python value passed as \<^verbatim>\<open>data\<close>: an entity, or \<^verbatim>\<open>None\<close>.\<close>

type_synonym pyobj = "entity option"

text \<open>
  The collaborators the methods call (project service, entity loaders, DAO, h5 helpers,
  storage manager), as parameters. Each may raise; loaders and lookups may return
  \<^verbatim>\<open>None\<close>.
\<close>

record env =
  get_datatypes_from_datatype_group :: "int \<Rightarrow> exn + entity list option"
  load_entity_by_gid :: "gid \<Rightarrow> exn + pyobj"
  h5_load_entity_by_gid :: "gid option \<Rightarrow> exn + pyobj"
  path_for_stored_index :: "pyobj \<Rightarrow> exn + path"
  gather_references :: "path \<Rightarrow> exn + (string \<times> gid option) list"
  get_datatypegroup_by_op_group_id :: "int option \<Rightarrow> exn + pyobj"
  get_datatype_measure_group_from_ts_from_pse :: "gid \<Rightarrow> exn + pyobj"
  get_operation_by_id :: "int \<Rightarrow> exn + operation option"
  gather_references_of_view_model :: "gid \<Rightarrow> path \<Rightarrow> exn + (path list \<times> path list)"
  determine_filepath :: "gid \<Rightarrow> path \<Rightarrow> exn + path"
  remove_metadata :: "path \<Rightarrow> exn + unit"

text \<open>
  An exporter variant: what its \<^verbatim>\<open>get_supported_types()\<close> returns and what its
  \<^verbatim>\<open>skip_group_datatypes()\<close> returns (\<open>False\<close> in the base class, overridable).
\<close>

record exporter =
  get_supported_types :: "cls list"
  skip_group_datatypes :: bool

definition EXCLUDED_DATATYPES :: "string list" where
  "EXCLUDED_DATATYPES =
     [''Cortex'', ''CortexActivity'', ''CapEEGActivity'', ''Cap'', ''ValueWrapper'',
      ''SpatioTermporalMask'']"

section \<open>Capability filter\<close>

definition isinstance :: "pyobj \<Rightarrow> cls \<Rightarrow> bool" where
  "isinstance x c = (case x of None \<Rightarrow> False | Some e \<Rightarrow> c \<in> set (mro e))"

definition is_data_a_group :: "pyobj \<Rightarrow> bool" where
  "is_data_a_group data = isinstance data ''DataTypeGroup''"

text \<open>
  \<^verbatim>\<open>_get_effective_data_type\<close>: a group is resolved to its first member, loaded by gid;
  \<open>Inr None\<close> is the Python \<^verbatim>\<open>return None\<close>.
\<close>

definition get_effective_data_type :: "exporter \<Rightarrow> env \<Rightarrow> pyobj \<Rightarrow> exn + pyobj" where
  "get_effective_data_type self env data =
     (if is_data_a_group data then
        (if skip_group_datatypes self then Inr None
         else
           (case data of
              None \<Rightarrow> Inl AttributeError
            | Some g \<Rightarrow>
                (case get_datatypes_from_datatype_group env (id_attr g) of
                   Inl e \<Rightarrow> Inl e
                 | Inr data_types \<Rightarrow>
                     (case data_types of
                        None \<Rightarrow> Inr None
                      | Some [] \<Rightarrow> Inr None
                      | Some (d # _) \<Rightarrow> load_entity_by_gid env (gid d)))))
      else Inr data)"

text \<open>
  \<^verbatim>\<open>hasattr(effective_data_type, "type") and effective_data_type.type in EXCLUDED_DATATYPES\<close>
\<close>

definition excluded :: "entity \<Rightarrow> bool" where
  "excluded e = (case type_attr e of None \<Rightarrow> False | Some t \<Rightarrow> t \<in> set EXCLUDED_DATATYPES)"

definition accepts :: "exporter \<Rightarrow> env \<Rightarrow> pyobj \<Rightarrow> exn + bool" where
  "accepts self env data =
     (case get_effective_data_type self env data of
        Inl e \<Rightarrow> Inl e
      | Inr effective_data_type \<Rightarrow>
          (case effective_data_type of
             None \<Rightarrow> Inr False
           | Some e \<Rightarrow>
               if excluded e then Inr False
               else Inr (list_ex (isinstance effective_data_type) (get_supported_types self))))"

section \<open>Ensemble resolver\<close>

text \<open>The loop of \<^verbatim>\<open>_get_all_data_types_arr\<close>: load each member, append the result.\<close>

fun load_all :: "env \<Rightarrow> entity list \<Rightarrow> pyobj list \<Rightarrow> exn + pyobj list" where
  "load_all env [] result = Inr result"
| "load_all env (data_type # rest) result =
     (case load_entity_by_gid env (gid data_type) of
        Inl e \<Rightarrow> Inl e
      | Inr entity \<Rightarrow> load_all env rest (result @ [entity]))"

definition get_all_data_types_arr :: "env \<Rightarrow> pyobj \<Rightarrow> exn + pyobj list" where
  "get_all_data_types_arr env data =
     (if is_data_a_group data then
        (case data of
           None \<Rightarrow> Inl AttributeError
         | Some g \<Rightarrow>
             (case get_datatypes_from_datatype_group env (id_attr g) of
                Inl e \<Rightarrow> Inl e
              | Inr data_types \<Rightarrow>
                  (case data_types of
                     None \<Rightarrow> Inr []
                   | Some ds \<Rightarrow> load_all env ds [])))
      else Inr [data])"

section \<open>Reference closure\<close>

text \<open>
  The state of a traversal: the accumulator \<^verbatim>\<open>dt_path_list\<close>, which the Python mutates in
  place (so it keeps what was appended also when an exception leaves the call), and the
  files opened with \<^verbatim>\<open>H5File.from_file\<close> so far, in order. The first component of a
  result is the exception raised, if any.
\<close>

type_synonym walk = "path list \<times> path list"

text \<open>
  The loop of \<^verbatim>\<open>gather_datatypes_for_copy\<close> over the references of a file, with the
  recursive call as parameter \<open>rec\<close>. \<^verbatim>\<open>if ref_gid:\<close> is false for \<^verbatim>\<open>None\<close> and for the
  empty string.
\<close>

fun for_refs ::
  "(pyobj \<Rightarrow> walk \<Rightarrow> exn option \<times> walk) \<Rightarrow> env \<Rightarrow> (string \<times> gid option) list
     \<Rightarrow> walk \<Rightarrow> exn option \<times> walk" where
  "for_refs rec env [] st = (None, st)"
| "for_refs rec env ((_, ref_gid) # rest) st =
     (case ref_gid of
        None \<Rightarrow> for_refs rec env rest st
      | Some g \<Rightarrow>
          if g = [] then for_refs rec env rest st
          else
            (case load_entity_by_gid env g of
               Inl e \<Rightarrow> (Some e, st)
             | Inr dt \<Rightarrow>
                 (case rec dt st of
                    (Some e, st') \<Rightarrow> (Some e, st')
                  | (None, st') \<Rightarrow> for_refs rec env rest st')))"

text \<open>
  \<^verbatim>\<open>gather_datatypes_for_copy\<close>. The method calls itself for every reference that is
  set, with no test of what was visited. The first argument is the number of nested
  calls of the method that the interpreter's recursion limit still allows: Python
  raises \<^verbatim>\<open>RecursionError\<close> at the call that exceeds it.
\<close>

primrec gather_datatypes_for_copy :: "nat \<Rightarrow> env \<Rightarrow> pyobj \<Rightarrow> walk \<Rightarrow> exn option \<times> walk" where
  "gather_datatypes_for_copy 0 env data st = (Some RecursionError, st)"
| "gather_datatypes_for_copy (Suc frames) env data st =
     (case st of (dt_path_list, opened) \<Rightarrow>
      (case path_for_stored_index env data of
         Inl e \<Rightarrow> (Some e, st)
       | Inr data_path \<Rightarrow>
           let dt_path_list1 =
                 (if data_path \<in> set dt_path_list then dt_path_list
                  else dt_path_list @ [data_path])
           in
           (case gather_references env data_path of
              Inl e \<Rightarrow> (Some e, dt_path_list1, opened)
            | Inr sub_dt_refs \<Rightarrow>
                for_refs (gather_datatypes_for_copy frames env) env sub_dt_refs
                  (dt_path_list1, opened @ [data_path]))))"

text \<open>The gids of the references of a file that the loop follows (those that are set).\<close>

fun live_refs :: "(string \<times> gid option) list \<Rightarrow> gid list" where
  "live_refs [] = []"
| "live_refs ((_, ref_gid) # rest) =
     (case ref_gid of
        None \<Rightarrow> live_refs rest
      | Some g \<Rightarrow> if g = [] then live_refs rest else g # live_refs rest)"

text \<open>The sequence \<open>x, y, x, y, ...\<close> of length \<open>n\<close>.\<close>

fun alternate :: "nat \<Rightarrow> 'a \<Rightarrow> 'a \<Rightarrow> 'a list" where
  "alternate 0 x y = []"
| "alternate (Suc n) x y = x # alternate n y x"

section \<open>Preparing the datatypes for export\<close>

text \<open>
  Lines 172 to 183 of \<^verbatim>\<open>prepare_datatypes_for_export\<close>: flatten, look at the first
  entry, find the paired group and flatten it. \<^verbatim>\<open>all_datatypes[0]\<close> raises
  \<^verbatim>\<open>IndexError\<close> on an empty list; an attribute read on \<^verbatim>\<open>None\<close> raises
  \<^verbatim>\<open>AttributeError\<close>; \<^verbatim>\<open>hasattr(None, 'fk_source_gid')\<close> is false; an entity has the
  attribute when its field \<open>fk_source_gid\<close> is \<open>Some src\<close>, and \<open>src\<close> (a gid or \<^verbatim>\<open>None\<close>) is
  what is passed to \<^verbatim>\<open>h5.load_entity_by_gid\<close>.
\<close>

definition combined_datatypes :: "env \<Rightarrow> pyobj \<Rightarrow> exn + pyobj list" where
  "combined_datatypes env data =
     (case get_all_data_types_arr env data of
        Inl e \<Rightarrow> Inl e
      | Inr all_datatypes \<Rightarrow>
          (case all_datatypes of
             [] \<Rightarrow> Inl IndexError
           | first # _ \<Rightarrow>
               (case (case first of None \<Rightarrow> None | Some f \<Rightarrow> fk_source_gid f) of
                  Some src \<Rightarrow>
                    (case h5_load_entity_by_gid env src of
                       Inl e \<Rightarrow> Inl e
                     | Inr None \<Rightarrow> Inl AttributeError
                     | Inr (Some ts) \<Rightarrow>
                         (case parent_operation ts of
                            None \<Rightarrow> Inl AttributeError
                          | Some po \<Rightarrow>
                              (case get_datatypegroup_by_op_group_id env (fk_operation_group po) of
                                 Inl e \<Rightarrow> Inl e
                               | Inr data_2 \<Rightarrow>
                                   (case get_all_data_types_arr env data_2 of
                                      Inl e \<Rightarrow> Inl e
                                    | Inr all_datatypes_2 \<Rightarrow>
                                        Inr (all_datatypes_2 @ all_datatypes)))))
                | None \<Rightarrow>
                    (case first of
                       None \<Rightarrow> Inl AttributeError
                     | Some f \<Rightarrow>
                         (case get_datatype_measure_group_from_ts_from_pse env (gid f) of
                            Inl e \<Rightarrow> Inl e
                          | Inr data_2 \<Rightarrow>
                              (case get_all_data_types_arr env data_2 of
                                 Inl e \<Rightarrow> Inl e
                               | Inr all_datatypes_2 \<Rightarrow>
                                   Inr (all_datatypes @ all_datatypes_2)))))))"

text \<open>\<^verbatim>\<open>os.path.dirname\<close> (POSIX): everything up to the last slash, trailing slashes
  removed unless the head consists of slashes only.\<close>

definition dirname :: "path \<Rightarrow> path" where
  "dirname p =
     (let head = rev (dropWhile (\<lambda>c. c \<noteq> CHR ''/'') (rev p))
      in if head \<noteq> [] \<and> \<not> list_all (\<lambda>c. c = CHR ''/'') head
         then rev (dropWhile (\<lambda>c. c = CHR ''/'') (rev head))
         else head)"

text \<open>
  The manifest \<^verbatim>\<open>op_file_dict\<close> maps a folder to its file list. The state of the loop is
  the manifest and the list of files whose \<^verbatim>\<open>parent_burst\<close> metadata has been removed so
  far (the file I/O done); the first component of the result is the exception raised,
  if any.
\<close>

type_synonym manifest = "path \<rightharpoonup> path list"

definition export_one ::
  "env \<Rightarrow> pyobj \<Rightarrow> manifest \<times> path list \<Rightarrow> exn option \<times> manifest \<times> path list" where
  "export_one env dt st =
     (case st of (op_file_dict, stripped) \<Rightarrow>
      (case path_for_stored_index env dt of
         Inl e \<Rightarrow> (Some e, op_file_dict, stripped)
       | Inr h5_path \<Rightarrow>
           (case remove_metadata env h5_path of
              Inl e \<Rightarrow> (Some e, op_file_dict, stripped)
            | Inr _ \<Rightarrow>
                let stripped1 = stripped @ [h5_path];
                    op_folder = dirname h5_path;
                    dict1 = op_file_dict(op_folder \<mapsto> [h5_path])
                in
                (case (case dt of None \<Rightarrow> Inl AttributeError
                               | Some d \<Rightarrow> get_operation_by_id env (fk_from_operation d)) of
                   Inl e \<Rightarrow> (Some e, dict1, stripped1)
                 | Inr None \<Rightarrow> (Some AttributeError, dict1, stripped1)
                 | Inr (Some op) \<Rightarrow>
                     (case gather_references_of_view_model env (view_model_gid op)
                             (dirname h5_path) of
                        Inl e \<Rightarrow> (Some e, dict1, stripped1)
                      | Inr vms \<Rightarrow>
                          let dict2 = dict1(op_folder \<mapsto> the (dict1 op_folder) @ fst vms)
                          in
                          (case determine_filepath env (view_model_gid op) op_folder of
                             Inl e \<Rightarrow> (Some e, dict2, stripped1)
                           | Inr vm_path \<Rightarrow>
                               (case remove_metadata env vm_path of
                                  Inl e \<Rightarrow> (Some e, dict2, stripped1)
                                | Inr _ \<Rightarrow> (None, dict2, stripped1 @ [vm_path]))))))))"

fun export_loop ::
  "env \<Rightarrow> pyobj list \<Rightarrow> manifest \<times> path list \<Rightarrow> exn option \<times> manifest \<times> path list" where
  "export_loop env [] st = (None, st)"
| "export_loop env (dt # rest) st =
     (case export_one env dt st of
        (Some e, st') \<Rightarrow> (Some e, st')
      | (None, st') \<Rightarrow> export_loop env rest st')"

text \<open>
  The whole method. The result is the returned pair or the exception, together with the
  list of files whose metadata was removed.
\<close>

definition prepare_datatypes_for_export ::
  "env \<Rightarrow> pyobj \<Rightarrow> (exn + pyobj list \<times> manifest) \<times> path list" where
  "prepare_datatypes_for_export env data =
     (case combined_datatypes env data of
        Inl e \<Rightarrow> (Inl e, [])
      | Inr all_datatypes \<Rightarrow>
          if all_datatypes = [] then
            (Inl (ExportException ''Could not export a data type group with no data!''), [])
          else
            (case export_loop env all_datatypes (Map.empty, []) of
               (Some e, op_file_dict, stripped) \<Rightarrow> (Inl e, stripped)
             | (None, op_file_dict, stripped) \<Rightarrow> (Inr (all_datatypes, op_file_dict), stripped)))"


section \<open>A concrete store\<close>

text \<open>
  A small project used to run the definitions: a parameter sweep with two time series
  (operation group 7), the two measures computed from them, the two groups, an empty
  group, a group with a member that no longer loads, and a cortex surface that no
  measure group was computed from.
\<close>

definition sweep_operation :: operation where
  "sweep_operation = \<lparr>fk_operation_group = Some 7, view_model_gid = ''vm7''\<rparr>"

definition mk_time_series :: "int \<Rightarrow> gid \<Rightarrow> entity" where
  "mk_time_series i g =
     \<lparr>mro = [''TimeSeriesRegionIndex'', ''TimeSeriesIndex'', ''DataType''], id_attr = i, gid = g,
      type_attr = Some ''TimeSeriesRegion'', fk_source_gid = None, fk_from_operation = 100,
      parent_operation = Some sweep_operation\<rparr>"

definition mk_measure :: "int \<Rightarrow> gid \<Rightarrow> gid \<Rightarrow> entity" where
  "mk_measure i g src =
     \<lparr>mro = [''DatatypeMeasureIndex'', ''DataType''], id_attr = i, gid = g,
      type_attr = Some ''DatatypeMeasure'', fk_source_gid = Some (Some src), fk_from_operation = 200,
      parent_operation = Some sweep_operation\<rparr>"

definition mk_group :: "int \<Rightarrow> gid \<Rightarrow> entity" where
  "mk_group i g =
     \<lparr>mro = [''DataTypeGroup'', ''DataType''], id_attr = i, gid = g,
      type_attr = Some ''DataTypeGroup'', fk_source_gid = None, fk_from_operation = 100,
      parent_operation = None\<rparr>"

definition ts0 :: entity where "ts0 = mk_time_series 10 ''ts0''"
definition ts1 :: entity where "ts1 = mk_time_series 11 ''ts1''"
definition measure0 :: entity where "measure0 = mk_measure 20 ''m0'' ''ts0''"
definition measure1 :: entity where "measure1 = mk_measure 21 ''m1'' ''ts1''"
definition ts_group :: entity where "ts_group = mk_group 1 ''tsg''"
definition measure_group :: entity where "measure_group = mk_group 2 ''mg''"
definition empty_group :: entity where "empty_group = mk_group 3 ''eg''"
definition stale_member :: entity where "stale_member = mk_time_series 12 ''gone''"
definition stale_group :: entity where "stale_group = mk_group 4 ''sg''"
definition cortex :: entity where
  "cortex =
     \<lparr>mro = [''SurfaceIndex'', ''DataType''], id_attr = 30, gid = ''cx'',
      type_attr = Some ''Cortex'', fk_source_gid = None, fk_from_operation = 300,
      parent_operation = None\<rparr>"

definition lookup_gid :: "gid \<Rightarrow> pyobj" where
  "lookup_gid g =
     (if g = ''ts0'' then Some ts0 else if g = ''ts1'' then Some ts1
      else if g = ''m0'' then Some measure0 else if g = ''m1'' then Some measure1
      else None)"

definition sweep_env :: env where
  "sweep_env =
     \<lparr>get_datatypes_from_datatype_group =
        (\<lambda>i. if i = 1 then Inr (Some [ts0, ts1])
              else if i = 2 then Inr (Some [measure0, measure1])
              else if i = 4 then Inr (Some [ts0, stale_member]) else Inr (Some [])),
      load_entity_by_gid = (\<lambda>g. Inr (lookup_gid g)),
      h5_load_entity_by_gid =
        (\<lambda>g. case g of None \<Rightarrow> Inr None | Some s \<Rightarrow> Inr (lookup_gid s)),
      path_for_stored_index =
        (\<lambda>x. case x of None \<Rightarrow> Inl AttributeError
                      | Some e \<Rightarrow> Inr (''/P/'' @ gid e @ ''/'' @ gid e @ ''.h5'')),
      gather_references =
        (\<lambda>p. if p = ''/P/m0/m0.h5'' then Inr [(''source'', Some ''ts0''), (''unset'', None)]
              else if p = ''/P/m1/m1.h5'' then Inr [(''source'', Some ''ts1''), (''reference'', Some ''ts1'')]
              else Inr []),
      get_datatypegroup_by_op_group_id =
        (\<lambda>g. if g = Some 7 then Inr (Some ts_group) else Inr None),
      get_datatype_measure_group_from_ts_from_pse =
        (\<lambda>g. if g = ''ts0'' \<or> g = ''ts1'' then Inr (Some measure_group) else Inr None),
      get_operation_by_id = (\<lambda>i. Inr (Some sweep_operation)),
      gather_references_of_view_model = (\<lambda>g dir. Inr ([dir @ ''/vm_'' @ g @ ''.h5''], [])),
      determine_filepath = (\<lambda>g dir. Inr (dir @ ''/vm_'' @ g @ ''.h5'')),
      remove_metadata = (\<lambda>p. Inr ())\<rparr>"

text \<open>The same store where the files of \<open>ts0\<close> and \<open>ts1\<close> reference each other.\<close>

definition cyclic_env :: env where
  "cyclic_env =
     sweep_env\<lparr>gather_references :=
       (\<lambda>p. if p = ''/P/ts0/ts0.h5'' then Inr [(''b'', Some ''ts1'')]
             else if p = ''/P/ts1/ts1.h5'' then Inr [(''a'', Some ''ts0'')]
             else Inr [])\<rparr>"

definition ts_exporter :: exporter where
  "ts_exporter = \<lparr>get_supported_types = [''TimeSeriesIndex''], skip_group_datatypes = False\<rparr>"

definition surface_exporter :: exporter where
  "surface_exporter = \<lparr>get_supported_types = [''SurfaceIndex''], skip_group_datatypes = False\<rparr>"

definition skipping_exporter :: exporter where
  "skipping_exporter = \<lparr>get_supported_types = [''TimeSeriesIndex''], skip_group_datatypes = True\<rparr>"


text \<open>What the preparation returns in this store for the measure \<open>measure0\<close>.\<close>

definition measure0_manifest :: manifest where
  "measure0_manifest =
     [''/P/ts0'' \<mapsto> [''/P/ts0/ts0.h5'', ''/P/ts0/vm_vm7.h5''],
      ''/P/ts1'' \<mapsto> [''/P/ts1/ts1.h5'', ''/P/ts1/vm_vm7.h5''],
      ''/P/m0'' \<mapsto> [''/P/m0/m0.h5'', ''/P/m0/vm_vm7.h5'']]"

definition measure0_stripped :: "path list" where
  "measure0_stripped =
     [''/P/ts0/ts0.h5'', ''/P/ts0/vm_vm7.h5'', ''/P/ts1/ts1.h5'', ''/P/ts1/vm_vm7.h5'',
      ''/P/m0/m0.h5'', ''/P/m0/vm_vm7.h5'']"

text \<open>What it returns for the time-series group.\<close>

definition ts_group_manifest :: manifest where
  "ts_group_manifest =
     [''/P/ts0'' \<mapsto> [''/P/ts0/ts0.h5'', ''/P/ts0/vm_vm7.h5''],
      ''/P/ts1'' \<mapsto> [''/P/ts1/ts1.h5'', ''/P/ts1/vm_vm7.h5''],
      ''/P/m0'' \<mapsto> [''/P/m0/m0.h5'', ''/P/m0/vm_vm7.h5''],
      ''/P/m1'' \<mapsto> [''/P/m1/m1.h5'', ''/P/m1/vm_vm7.h5'']]"

definition ts_group_stripped :: "path list" where
  "ts_group_stripped =
     [''/P/ts0/ts0.h5'', ''/P/ts0/vm_vm7.h5'', ''/P/ts1/ts1.h5'', ''/P/ts1/vm_vm7.h5'',
      ''/P/m0/m0.h5'', ''/P/m0/vm_vm7.h5'', ''/P/m1/m1.h5'', ''/P/m1/vm_vm7.h5'']"

text \<open>The files stripped before the preparation of the cortex surface fails.\<close>

definition cortex_stripped :: "path list" where
  "cortex_stripped = [''/P/cx/cx.h5'', ''/P/cx/vm_vm7.h5'']"

section \<open>Properties of the capability filter\<close>

text \<open>
  C5: whenever the effective data type of a record carries a \<^verbatim>\<open>type\<close> name that is in
  \<^verbatim>\<open>EXCLUDED_DATATYPES\<close>, \<open>accepts\<close> returns false, whatever the exporter supports.
\<close>

theorem accepts_excluded:
  assumes "get_effective_data_type self env r = Inr (Some e)"
    and "type_attr e = Some t" and "t \<in> set EXCLUDED_DATATYPES"
  shows "accepts self env r = Inr False"
  using assms by (simp add: accepts_def excluded_def)

text \<open>The cortex surface is refused by an exporter that supports its class.\<close>

theorem accepts_excluded_witness:
  "get_effective_data_type surface_exporter sweep_env (Some cortex) = Inr (Some cortex)
   \<and> type_attr cortex = Some ''Cortex'' \<and> ''Cortex'' \<in> set EXCLUDED_DATATYPES
   \<and> list_ex (isinstance (Some cortex)) (get_supported_types surface_exporter)
   \<and> accepts surface_exporter sweep_env (Some cortex) = Inr False"
proof -
  have 1: "get_effective_data_type surface_exporter sweep_env (Some cortex) = Inr (Some cortex)"
    by (simp add: get_effective_data_type_def is_data_a_group_def isinstance_def cortex_def)
  have 2: "type_attr cortex = Some ''Cortex''" by (simp add: cortex_def)
  have 3: "''Cortex'' \<in> set EXCLUDED_DATATYPES" by (simp add: EXCLUDED_DATATYPES_def)
  have 4: "list_ex (isinstance (Some cortex)) (get_supported_types surface_exporter)"
    by (simp add: isinstance_def cortex_def surface_exporter_def)
  show ?thesis using accepts_excluded [OF 1 2 3] 1 2 3 4 by simp
qed

text \<open>
  C6: for a group that is skipped by the exporter or has no member, no effective type
  is resolved and \<open>accepts\<close> returns false (a value, not an exception).
\<close>

theorem accepts_unresolved:
  assumes "is_data_a_group (Some g)"
    and "skip_group_datatypes self
         \<or> get_datatypes_from_datatype_group env (id_attr g) = Inr None
         \<or> get_datatypes_from_datatype_group env (id_attr g) = Inr (Some [])"
  shows "accepts self env (Some g) = Inr False"
  using assms by (auto simp: accepts_def get_effective_data_type_def)

text \<open>The empty group, and the time-series group under a skipping exporter.\<close>

theorem accepts_unresolved_witness:
  "is_data_a_group (Some empty_group)
   \<and> get_datatypes_from_datatype_group sweep_env (id_attr empty_group) = Inr (Some [])
   \<and> accepts ts_exporter sweep_env (Some empty_group) = Inr False
   \<and> is_data_a_group (Some ts_group) \<and> skip_group_datatypes skipping_exporter
   \<and> accepts skipping_exporter sweep_env (Some ts_group) = Inr False"
proof -
  have 1: "is_data_a_group (Some empty_group)" "is_data_a_group (Some ts_group)"
    by (simp_all add: is_data_a_group_def isinstance_def empty_group_def ts_group_def mk_group_def)
  have 2: "get_datatypes_from_datatype_group sweep_env (id_attr empty_group) = Inr (Some [])"
    by (simp add: sweep_env_def empty_group_def mk_group_def)
  have 3: "skip_group_datatypes skipping_exporter" by (simp add: skipping_exporter_def)
  show ?thesis
    using accepts_unresolved [of empty_group ts_exporter sweep_env]
      accepts_unresolved [of ts_group skipping_exporter sweep_env] 1 2 3
    by simp
qed

text \<open>
  C9: when the effective data type is resolved and not excluded, \<open>accepts\<close> returns
  whether it is an instance of one of the supported types, that is whether one of them
  is among its classes (its own class or any base class).
\<close>

theorem accepts_supported:
  assumes "get_effective_data_type self env r = Inr (Some e)"
    and "\<not> excluded e"
  shows "accepts self env r = Inr (\<exists>c \<in> set (get_supported_types self). c \<in> set (mro e))"
  using assms by (simp add: accepts_def isinstance_def list_ex_iff)

text \<open>
  A region time series is accepted by an exporter of time series (a base class), and
  refused by an exporter of surfaces.
\<close>

theorem accepts_supported_witness:
  "get_effective_data_type ts_exporter sweep_env (Some ts0) = Inr (Some ts0)
   \<and> \<not> excluded ts0
   \<and> accepts ts_exporter sweep_env (Some ts0) = Inr True
   \<and> accepts surface_exporter sweep_env (Some ts0) = Inr False"
proof -
  have 1: "get_effective_data_type x sweep_env (Some ts0) = Inr (Some ts0)" for x
    by (simp add: get_effective_data_type_def is_data_a_group_def isinstance_def ts0_def
        mk_time_series_def)
  have 2: "\<not> excluded ts0"
    by (simp add: excluded_def ts0_def mk_time_series_def EXCLUDED_DATATYPES_def)
  show ?thesis
    using accepts_supported [OF 1 2, of ts_exporter] accepts_supported [OF 1 2, of surface_exporter]
      1 2
    by (simp add: ts_exporter_def surface_exporter_def ts0_def mk_time_series_def)
qed

text \<open>
  C8, as amended: for an exporter that does not skip groups and a group whose first
  member loads as a record that is not itself a group, \<open>accepts\<close> on the group equals
  \<open>accepts\<close> on that loaded first member.
\<close>

theorem accepts_group_representative:
  assumes "\<not> skip_group_datatypes self"
    and "is_data_a_group (Some g)"
    and "get_datatypes_from_datatype_group env (id_attr g) = Inr (Some (d # ds))"
    and "load_entity_by_gid env (gid d) = Inr m1"
    and "\<not> is_data_a_group m1"
  shows "accepts self env (Some g) = accepts self env m1"
  using assms by (simp add: accepts_def get_effective_data_type_def)

theorem accepts_group_representative_witness:
  "\<not> skip_group_datatypes ts_exporter
   \<and> is_data_a_group (Some ts_group)
   \<and> get_datatypes_from_datatype_group sweep_env (id_attr ts_group) = Inr (Some [ts0, ts1])
   \<and> load_entity_by_gid sweep_env (gid ts0) = Inr (Some ts0)
   \<and> \<not> is_data_a_group (Some ts0)
   \<and> accepts ts_exporter sweep_env (Some ts_group) = accepts ts_exporter sweep_env (Some ts0)"
proof -
  have 1: "\<not> skip_group_datatypes ts_exporter" by (simp add: ts_exporter_def)
  have 2: "is_data_a_group (Some ts_group)"
    by (simp add: is_data_a_group_def isinstance_def ts_group_def mk_group_def)
  have 3: "get_datatypes_from_datatype_group sweep_env (id_attr ts_group) = Inr (Some [ts0, ts1])"
    by (simp add: sweep_env_def ts_group_def mk_group_def)
  have 4: "load_entity_by_gid sweep_env (gid ts0) = Inr (Some ts0)"
    by (simp add: sweep_env_def lookup_gid_def) (simp add: ts0_def mk_time_series_def)
  have 5: "\<not> is_data_a_group (Some ts0)"
    by (simp add: is_data_a_group_def isinstance_def ts0_def mk_time_series_def)
  show ?thesis using accepts_group_representative [OF 1 2 3 4 5] 1 2 3 4 5 by simp
qed

text \<open>
  The claim as stated, for every exporter variant, fails for a variant that skips
  groups: the group is refused although its first member is accepted.
\<close>

theorem accepts_group_skipped_counterexample:
  "accepts skipping_exporter sweep_env (Some ts_group) = Inr False
   \<and> accepts skipping_exporter sweep_env (Some ts0) = Inr True"
  by (simp add: accepts_def get_effective_data_type_def is_data_a_group_def isinstance_def
      excluded_def EXCLUDED_DATATYPES_def skipping_exporter_def ts_group_def mk_group_def
      ts0_def mk_time_series_def)

section \<open>Properties of the ensemble resolver\<close>

lemma load_all_iff:
  "load_all env ds acc = Inr xs
   \<longleftrightarrow> map Inr xs = map Inr acc @ map (\<lambda>d. load_entity_by_gid env (gid d)) ds"
proof (induction ds arbitrary: acc)
  case Nil
  show ?case by (auto simp: inj_map_eq_map [OF inj_Inr])
next
  case (Cons d ds)
  show ?case
  proof (cases "load_entity_by_gid env (gid d)")
    case (Inl e)
    have "Inl e \<notin> set (map Inr xs)" by auto
    then have "map Inr xs \<noteq> map Inr acc @ Inl e # map (\<lambda>d. load_entity_by_gid env (gid d)) ds"
      by (metis in_set_conv_decomp)
    with Inl show ?thesis by simp
  next
    case (Inr x)
    then show ?thesis by (simp add: Cons.IH)
  qed
qed

text \<open>
  C7, as amended: a record that is not a group is flattened to the singleton of itself;
  a group with stored members \<open>ds\<close> is flattened to exactly the results of loading each
  member's gid, in the stored order, with no check of what the loader returned, so the
  result has no null entry when no member loads as \<^verbatim>\<open>None\<close>; a group without members
  is flattened to the empty list.
\<close>

theorem flatten_result:
  "(\<not> is_data_a_group r \<longrightarrow> get_all_data_types_arr env r = Inr [r])
   \<and> (is_data_a_group (Some g)
        \<and> get_datatypes_from_datatype_group env (id_attr g) = Inr (Some ds)
      \<longrightarrow> (get_all_data_types_arr env (Some g) = Inr xs
            \<longleftrightarrow> map Inr xs = map (\<lambda>d. load_entity_by_gid env (gid d)) ds)
          \<and> (get_all_data_types_arr env (Some g) = Inr xs
               \<and> list_all (\<lambda>d. load_entity_by_gid env (gid d) \<noteq> Inr None) ds
             \<longrightarrow> None \<notin> set xs))
   \<and> (is_data_a_group (Some g)
        \<and> (get_datatypes_from_datatype_group env (id_attr g) = Inr None
           \<or> get_datatypes_from_datatype_group env (id_attr g) = Inr (Some []))
      \<longrightarrow> get_all_data_types_arr env (Some g) = Inr [])"
proof (intro conjI impI)
  assume "\<not> is_data_a_group r"
  then show "get_all_data_types_arr env r = Inr [r]"
    by (simp add: get_all_data_types_arr_def)
next
  assume h: "is_data_a_group (Some g)
     \<and> get_datatypes_from_datatype_group env (id_attr g) = Inr (Some ds)"
  then show iff: "get_all_data_types_arr env (Some g) = Inr xs
        \<longleftrightarrow> map Inr xs = map (\<lambda>d. load_entity_by_gid env (gid d)) ds"
    by (simp add: get_all_data_types_arr_def load_all_iff)
  assume a: "get_all_data_types_arr env (Some g) = Inr xs
     \<and> list_all (\<lambda>d. load_entity_by_gid env (gid d) \<noteq> Inr None) ds"
  show "None \<notin> set xs"
  proof
    assume "None \<in> set xs"
    then have "Inr None \<in> set (map Inr xs :: (exn + pyobj) list)" by force
    with a iff have "Inr None \<in> set (map (\<lambda>d. load_entity_by_gid env (gid d)) ds)" by simp
    with a show False by (auto simp: list_all_iff)
  qed
next
  assume "is_data_a_group (Some g)
        \<and> (get_datatypes_from_datatype_group env (id_attr g) = Inr None
           \<or> get_datatypes_from_datatype_group env (id_attr g) = Inr (Some []))"
  then show "get_all_data_types_arr env (Some g) = Inr []"
    by (auto simp: get_all_data_types_arr_def)
qed

theorem flatten_result_witness:
  "\<not> is_data_a_group (Some ts0)
   \<and> get_all_data_types_arr sweep_env (Some ts0) = Inr [Some ts0]
   \<and> is_data_a_group (Some ts_group)
   \<and> get_datatypes_from_datatype_group sweep_env (id_attr ts_group) = Inr (Some [ts0, ts1])
   \<and> get_all_data_types_arr sweep_env (Some ts_group) = Inr [Some ts0, Some ts1]
   \<and> is_data_a_group (Some empty_group)
   \<and> get_datatypes_from_datatype_group sweep_env (id_attr empty_group) = Inr (Some [])
   \<and> get_all_data_types_arr sweep_env (Some empty_group) = Inr []"
proof -
  have 1: "\<not> is_data_a_group (Some ts0)"
    by (simp add: is_data_a_group_def isinstance_def ts0_def mk_time_series_def)
  have 2: "is_data_a_group (Some ts_group)" "is_data_a_group (Some empty_group)"
    by (simp_all add: is_data_a_group_def isinstance_def ts_group_def empty_group_def mk_group_def)
  have 3: "get_datatypes_from_datatype_group sweep_env (id_attr ts_group) = Inr (Some [ts0, ts1])"
    "get_datatypes_from_datatype_group sweep_env (id_attr empty_group) = Inr (Some [])"
    by (simp_all add: sweep_env_def ts_group_def empty_group_def mk_group_def)
  have 4: "map Inr [Some ts0, Some ts1] = map (\<lambda>d. load_entity_by_gid sweep_env (gid d)) [ts0, ts1]"
    by (simp add: sweep_env_def lookup_gid_def) (simp add: ts0_def ts1_def mk_time_series_def)
  show ?thesis
    using flatten_result [of "Some ts0" sweep_env ts_group "[ts0, ts1]" "[Some ts0, Some ts1]"]
      flatten_result [of "Some ts0" sweep_env empty_group "[]" "[]"] 1 2 3 4
    by simp
qed

text \<open>
  The claim as stated fails for a group with a member whose gid the loader resolves to
  \<^verbatim>\<open>None\<close>: the flattened list holds that \<^verbatim>\<open>None\<close>.
\<close>

theorem flatten_null_entry_counterexample:
  "is_data_a_group (Some stale_group)
   \<and> get_all_data_types_arr sweep_env (Some stale_group) = Inr [Some ts0, None]"
  by (simp add: get_all_data_types_arr_def is_data_a_group_def isinstance_def stale_group_def
      mk_group_def sweep_env_def lookup_gid_def stale_member_def)
    (simp add: ts0_def mk_time_series_def)

section \<open>Properties of the preparation for export\<close>

lemma prepare_returns_combined:
  assumes "prepare_datatypes_for_export env data = (Inr (res, d), log)"
  shows "combined_datatypes env data = Inr res"
  using assms
  by (auto simp: prepare_datatypes_for_export_def split: sum.splits if_splits prod.splits option.splits)

lemma prepare_returns_loop:
  assumes "prepare_datatypes_for_export env data = (Inr (res, d), log)"
  shows "export_loop env res (Map.empty, []) = (None, d, log)"
  using assms
  by (auto simp: prepare_datatypes_for_export_def split: sum.splits if_splits prod.splits option.splits)

text \<open>The list checked at line 185 is never empty: the check cannot fire.\<close>

lemma combined_datatypes_nonempty:
  "combined_datatypes env data = Inr res \<Longrightarrow> res \<noteq> []"
  by (auto simp: combined_datatypes_def split: sum.splits list.splits option.splits)

lemma combined_datatypes_empty_flattening:
  "get_all_data_types_arr env data = Inr [] \<Longrightarrow> combined_datatypes env data = Inl IndexError"
  by (simp add: combined_datatypes_def)

lemma export_one_ok:
  assumes "export_one env dt (d, log) = (None, d', log')"
  shows "\<exists>e p op vms dts.
           dt = Some e \<and> path_for_stored_index env (Some e) = Inr p
           \<and> get_operation_by_id env (fk_from_operation e) = Inr (Some op)
           \<and> gather_references_of_view_model env (view_model_gid op) (dirname p) = Inr (vms, dts)
           \<and> d' = d(dirname p \<mapsto> p # vms)"
  using assms
  by (auto simp: export_one_def Let_def split: sum.splits option.splits)

text \<open>The loop over the records fails on a \<^verbatim>\<open>None\<close> entry.\<close>

lemma export_loop_no_null:
  assumes "export_loop env xs st = (None, st')"
  shows "None \<notin> set xs"
  using assms
proof (induction xs arbitrary: st)
  case Nil
  then show ?case by simp
next
  case (Cons x xs)
  obtain d log where st: "st = (d, log)" by (cases st)
  obtain r d1 log1 where r: "export_one env x (d, log) = (r, d1, log1)"
    by (cases "export_one env x (d, log)")
  have one: "export_one env x (d, log) = (None, d1, log1)"
    and loop: "export_loop env xs (d1, log1) = (None, st')"
    using Cons.prems r st by (cases r; simp)+
  from export_one_ok [OF one] have "x \<noteq> None" by auto
  with Cons.IH [OF loop] show ?case by auto
qed

lemma flatten_null: "get_all_data_types_arr env None = Inr [None]"
  by (simp add: get_all_data_types_arr_def is_data_a_group_def isinstance_def)

text \<open>
  C1, as amended: when the flattened input is not empty and the method returns, the
  lookup of the paired group gave a group (not \<^verbatim>\<open>None\<close>) and the returned list is, if
  the first flattened record has the attribute \<^verbatim>\<open>fk_source_gid\<close>, the flattening \<open>T\<close> of
  the time-series group of the source's operation group followed by the flattened
  input, and otherwise the flattened input followed by the flattening \<open>D\<close> of the
  measure group found for the first record.
\<close>

theorem prepare_combined_order:
  assumes "get_all_data_types_arr env data = Inr (first # rest)"
    and "prepare_datatypes_for_export env data = (Inr (res, d), log)"
  shows "case (case first of None \<Rightarrow> None | Some f \<Rightarrow> fk_source_gid f) of
           Some src \<Rightarrow>
             (\<exists>ts po g2 T.
                h5_load_entity_by_gid env src = Inr (Some ts)
                \<and> parent_operation ts = Some po
                \<and> get_datatypegroup_by_op_group_id env (fk_operation_group po) = Inr (Some g2)
                \<and> get_all_data_types_arr env (Some g2) = Inr T
                \<and> res = T @ (first # rest))
         | None \<Rightarrow>
             (\<exists>f g2 D.
                first = Some f
                \<and> get_datatype_measure_group_from_ts_from_pse env (gid f) = Inr (Some g2)
                \<and> get_all_data_types_arr env (Some g2) = Inr D
                \<and> res = (first # rest) @ D)"
proof -
  have c: "combined_datatypes env data = Inr res"
    using assms(2) by (rule prepare_returns_combined)
  have n: "None \<notin> set res"
    using prepare_returns_loop [OF assms(2)] by (rule export_loop_no_null)
  show ?thesis
  proof (cases "case first of None \<Rightarrow> None | Some f \<Rightarrow> fk_source_gid f")
    case None
    with c assms(1) obtain f data_2 D where
      f: "first = Some f"
      and l: "get_datatype_measure_group_from_ts_from_pse env (gid f) = Inr data_2"
      and D: "get_all_data_types_arr env data_2 = Inr D"
      and res: "res = (first # rest) @ D"
      by (auto simp: combined_datatypes_def split: sum.splits option.splits)
    have "data_2 \<noteq> None"
    proof
      assume "data_2 = None"
      with D have "D = [None]" by (simp add: flatten_null)
      with res n show False by simp
    qed
    then obtain g2 where "data_2 = Some g2" by (cases data_2) auto
    with None f l D res show ?thesis by simp
  next
    case (Some src)
    with c assms(1) obtain ts po data_2 T where
      ts: "h5_load_entity_by_gid env src = Inr (Some ts)"
      and po: "parent_operation ts = Some po"
      and l: "get_datatypegroup_by_op_group_id env (fk_operation_group po) = Inr data_2"
      and T: "get_all_data_types_arr env data_2 = Inr T"
      and res: "res = T @ (first # rest)"
      by (auto simp: combined_datatypes_def split: sum.splits option.splits)
    have "data_2 \<noteq> None"
    proof
      assume "data_2 = None"
      with T have "T = [None]" by (simp add: flatten_null)
      with res n show False by simp
    qed
    then obtain g2 where "data_2 = Some g2" by (cases data_2) auto
    with Some ts po l T res show ?thesis by simp
  qed
qed

lemma prepare_measure0:
  "prepare_datatypes_for_export sweep_env (Some measure0)
     = (Inr ([Some ts0, Some ts1, Some measure0], measure0_manifest), measure0_stripped)"
  by (simp add: prepare_datatypes_for_export_def combined_datatypes_def
      get_all_data_types_arr_def is_data_a_group_def isinstance_def export_one_def dirname_def
      sweep_env_def lookup_gid_def ts0_def ts1_def measure0_def measure1_def ts_group_def
      measure_group_def mk_time_series_def mk_measure_def mk_group_def sweep_operation_def
      measure0_manifest_def measure0_stripped_def)

lemma prepare_ts_group:
  "prepare_datatypes_for_export sweep_env (Some ts_group)
     = (Inr ([Some ts0, Some ts1, Some measure0, Some measure1], ts_group_manifest),
        ts_group_stripped)"
  by (simp add: prepare_datatypes_for_export_def combined_datatypes_def
      get_all_data_types_arr_def is_data_a_group_def isinstance_def export_one_def dirname_def
      sweep_env_def lookup_gid_def ts0_def ts1_def measure0_def measure1_def ts_group_def
      measure_group_def mk_time_series_def mk_measure_def mk_group_def sweep_operation_def
      ts_group_manifest_def ts_group_stripped_def)

lemma flatten_measure0:
  "get_all_data_types_arr sweep_env (Some measure0) = Inr [Some measure0]"
  by (simp add: get_all_data_types_arr_def is_data_a_group_def isinstance_def measure0_def
      mk_measure_def)

lemma flatten_ts_group:
  "get_all_data_types_arr sweep_env (Some ts_group) = Inr [Some ts0, Some ts1]"
  by (simp add: get_all_data_types_arr_def is_data_a_group_def isinstance_def ts_group_def
      mk_group_def sweep_env_def lookup_gid_def)
    (simp add: ts0_def ts1_def mk_time_series_def)

lemma flatten_measure_group:
  "get_all_data_types_arr sweep_env (Some measure_group) = Inr [Some measure0, Some measure1]"
  by (simp add: get_all_data_types_arr_def is_data_a_group_def isinstance_def measure_group_def
      mk_group_def sweep_env_def lookup_gid_def)
    (simp add: measure0_def measure1_def mk_measure_def)

text \<open>
  Exporting one measure gives the two time series, then the measure; exporting the
  time-series group gives the two time series, then the two measures.
\<close>

theorem prepare_combined_order_witness:
  "get_all_data_types_arr sweep_env (Some measure0) = Inr [Some measure0]
   \<and> prepare_datatypes_for_export sweep_env (Some measure0)
       = (Inr ([Some ts0, Some ts1, Some measure0], measure0_manifest), measure0_stripped)
   \<and> fk_source_gid measure0 = Some (Some ''ts0'')
   \<and> (\<exists>T. get_all_data_types_arr sweep_env (Some ts_group) = Inr T
          \<and> [Some ts0, Some ts1, Some measure0] = T @ [Some measure0])
   \<and> get_all_data_types_arr sweep_env (Some ts_group) = Inr [Some ts0, Some ts1]
   \<and> prepare_datatypes_for_export sweep_env (Some ts_group)
       = (Inr ([Some ts0, Some ts1, Some measure0, Some measure1], ts_group_manifest),
          ts_group_stripped)
   \<and> fk_source_gid ts0 = None
   \<and> (\<exists>D. get_all_data_types_arr sweep_env (Some measure_group) = Inr D
          \<and> [Some ts0, Some ts1, Some measure0, Some measure1] = [Some ts0, Some ts1] @ D)"
proof -
  have m: "fk_source_gid measure0 = Some (Some ''ts0'')"
    by (simp add: measure0_def mk_measure_def)
  have t: "fk_source_gid ts0 = None" by (simp add: ts0_def mk_time_series_def)
  have "\<exists>T. get_all_data_types_arr sweep_env (Some ts_group) = Inr T
          \<and> [Some ts0, Some ts1, Some measure0] = T @ [Some measure0]"
    using prepare_combined_order [OF flatten_measure0 prepare_measure0] m
    by (auto simp: sweep_env_def lookup_gid_def ts0_def mk_time_series_def sweep_operation_def
        split: if_splits)
  moreover have "\<exists>D. get_all_data_types_arr sweep_env (Some measure_group) = Inr D
          \<and> [Some ts0, Some ts1, Some measure0, Some measure1] = [Some ts0, Some ts1] @ D"
    using prepare_combined_order [OF flatten_ts_group prepare_ts_group] t
    by (auto simp: sweep_env_def ts0_def mk_time_series_def split: if_splits)
  ultimately show ?thesis
    using flatten_measure0 prepare_measure0 flatten_ts_group prepare_ts_group m t by simp
qed

text \<open>
  The claim as stated, for every non-empty flattened input, fails for a record without
  a paired group: the flattened input is the cortex surface alone, the lookup of its
  measure group gives \<^verbatim>\<open>None\<close>, which is flattened to a \<^verbatim>\<open>None\<close> entry, and the method raises
  after the files of the cortex surface were stripped; no list is produced.
\<close>

theorem prepare_unpaired_counterexample:
  "get_all_data_types_arr sweep_env (Some cortex) = Inr [Some cortex]
   \<and> fk_source_gid cortex = None
   \<and> get_datatype_measure_group_from_ts_from_pse sweep_env (gid cortex) = Inr None
   \<and> prepare_datatypes_for_export sweep_env (Some cortex) = (Inl AttributeError, cortex_stripped)"
  by (simp add: prepare_datatypes_for_export_def combined_datatypes_def
      get_all_data_types_arr_def is_data_a_group_def isinstance_def export_one_def dirname_def
      sweep_env_def cortex_def sweep_operation_def cortex_stripped_def)

text \<open>
  C3: exporting a group without members. The flattening is empty, no file is touched and
  no manifest is returned, but the exception is the \<^verbatim>\<open>IndexError\<close> of
  \<^verbatim>\<open>all_datatypes[0]\<close>, not the \<^verbatim>\<open>ExportException\<close> of the later emptiness check.
\<close>

theorem prepare_empty_group_index_error:
  "is_data_a_group (Some empty_group)
   \<and> get_all_data_types_arr sweep_env (Some empty_group) = Inr []
   \<and> prepare_datatypes_for_export sweep_env (Some empty_group) = (Inl IndexError, [])"
  by (simp add: prepare_datatypes_for_export_def combined_datatypes_def
      get_all_data_types_arr_def is_data_a_group_def isinstance_def empty_group_def mk_group_def
      sweep_env_def)

section \<open>Properties of the reference closure\<close>

lemma for_refs_appends:
  assumes rec: "\<And>dt l o' out r o''. rec dt (l, o') = (out, r, o'') \<Longrightarrow>
                  \<exists>new. r = l @ new \<and> distinct new \<and> set l \<inter> set new = {}"
    and run: "for_refs rec env refs (l, opened) = (out, l', opened')"
  shows "\<exists>new. l' = l @ new \<and> distinct new \<and> set l \<inter> set new = {}"
  using run
proof (induction refs arbitrary: l opened)
  case Nil
  then show ?case by simp
next
  case (Cons r refs)
  obtain n g where r: "r = (n, g)" by (cases r)
  show ?case
  proof (cases "g = None \<or> g = Some []")
    case True
    with Cons.prems r have "for_refs rec env refs (l, opened) = (out, l', opened')" by auto
    then show ?thesis by (rule Cons.IH)
  next
    case False
    then obtain s where g: "g = Some s" and s: "s \<noteq> []" by (cases g) auto
    show ?thesis
    proof (cases "load_entity_by_gid env s")
      case (Inl e)
      with Cons.prems r g s have "l' = l" by simp
      then show ?thesis by simp
    next
      case (Inr dt)
      obtain x l1 o1 where x: "rec dt (l, opened) = (x, l1, o1)"
        by (cases "rec dt (l, opened)")
      from rec [OF x] obtain n1 where
        n1: "l1 = l @ n1" "distinct n1" "set l \<inter> set n1 = {}" by blast
      show ?thesis
      proof (cases x)
        case (Some e)
        with Cons.prems r g s Inr x have "l' = l1" by simp
        with n1 show ?thesis by blast
      next
        case None
        with Cons.prems r g s Inr x have
          rest: "for_refs rec env refs (l1, o1) = (out, l', opened')" by simp
        from Cons.IH [OF rest] obtain n2 where
          n2: "l' = l1 @ n2" "distinct n2" "set l1 \<inter> set n2 = {}" by blast
        from n1 n2 have
          "l' = l @ (n1 @ n2) \<and> distinct (n1 @ n2) \<and> set l \<inter> set (n1 @ n2) = {}"
          by auto
        then show ?thesis by blast
      qed
    qed
  qed
qed

lemma gather_appends:
  "gather_datatypes_for_copy frames env data (l, opened) = (out, l', opened') \<Longrightarrow>
   \<exists>new. l' = l @ new \<and> distinct new \<and> set l \<inter> set new = {}"
proof (induction frames arbitrary: data l opened out l' opened')
  case 0
  then show ?case by simp
next
  case (Suc frames)
  show ?case
  proof (cases "path_for_stored_index env data")
    case (Inl e)
    with Suc.prems have "l' = l" by simp
    then show ?thesis by simp
  next
    case (Inr p)
    let ?l0 = "if p \<in> set l then l else l @ [p]"
    have "\<exists>new. l' = ?l0 @ new \<and> distinct new \<and> set ?l0 \<inter> set new = {}"
    proof (cases "gather_references env p")
      case (Inl e)
      with Suc.prems Inr have "l' = ?l0" by (simp add: Let_def)
      then show ?thesis by simp
    next
      case refs: (Inr refs)
      with Suc.prems Inr have
        run: "for_refs (gather_datatypes_for_copy frames env) env refs (?l0, opened @ [p])
                = (out, l', opened')"
        by (simp add: Let_def)
      show ?thesis
        by (rule for_refs_appends [OF _ run]) (rule Suc.IH)
    qed
    then obtain new where new: "l' = ?l0 @ new" "distinct new" "set ?l0 \<inter> set new = {}"
      by blast
    show ?thesis
    proof (cases "p \<in> set l")
      case True
      with new show ?thesis by auto
    next
      case False
      with new have "l' = l @ (p # new) \<and> distinct (p # new) \<and> set l \<inter> set (p # new) = {}"
        by auto
      then show ?thesis by blast
    qed
  qed
qed

text \<open>
  C10: at the end of a call of \<open>gather_datatypes_for_copy\<close> (a return, or an exception
  that leaves it), the list it was given is a prefix of the resulting list (every entry
  kept at its position), the entries added after it are pairwise different and none of
  them was in the given list; so a given list without duplicates stays without
  duplicates.
\<close>

theorem gather_append_only:
  assumes "gather_datatypes_for_copy frames env data (dt_path_list, opened)
             = (out, result, opened')"
  shows "take (length dt_path_list) result = dt_path_list
         \<and> distinct (drop (length dt_path_list) result)
         \<and> set dt_path_list \<inter> set (drop (length dt_path_list) result) = {}
         \<and> (distinct dt_path_list \<longrightarrow> distinct result)"
proof -
  from gather_appends [OF assms] obtain new where
    "result = dt_path_list @ new" "distinct new" "set dt_path_list \<inter> set new = {}"
    by blast
  then show ?thesis by auto
qed

lemma gather_measure1_frames:
  "gather_datatypes_for_copy (Suc (Suc n)) sweep_env (Some measure1)
       ([''/P/ts0/ts0.h5'', ''/P/m1/m1.h5''], [])
     = (None, [''/P/ts0/ts0.h5'', ''/P/m1/m1.h5'', ''/P/ts1/ts1.h5''],
        [''/P/m1/m1.h5'', ''/P/ts1/ts1.h5'', ''/P/ts1/ts1.h5''])"
  by (simp add: sweep_env_def lookup_gid_def measure1_def ts1_def mk_measure_def
      mk_time_series_def)

lemma gather_measure1:
  "gather_datatypes_for_copy 996 sweep_env (Some measure1) ([''/P/ts0/ts0.h5'', ''/P/m1/m1.h5''], [])
     = (None, [''/P/ts0/ts0.h5'', ''/P/m1/m1.h5'', ''/P/ts1/ts1.h5''],
        [''/P/m1/m1.h5'', ''/P/ts1/ts1.h5'', ''/P/ts1/ts1.h5''])"
proof -
  have "(996::nat) = Suc (Suc 994)" by simp
  then show ?thesis by (simp only: gather_measure1_frames)
qed

text \<open>
  Starting from a list that already holds the path of another record and the path of
  \<open>measure1\<close> itself, the traversal from \<open>measure1\<close>, whose file references \<open>ts1\<close> through
  two fields, only appends the path of \<open>ts1\<close>, once.
\<close>

theorem gather_append_only_witness:
  "gather_datatypes_for_copy 996 sweep_env (Some measure1) ([''/P/ts0/ts0.h5'', ''/P/m1/m1.h5''], [])
     = (None, [''/P/ts0/ts0.h5'', ''/P/m1/m1.h5'', ''/P/ts1/ts1.h5''],
        [''/P/m1/m1.h5'', ''/P/ts1/ts1.h5'', ''/P/ts1/ts1.h5''])
   \<and> take 2 [''/P/ts0/ts0.h5'', ''/P/m1/m1.h5'', ''/P/ts1/ts1.h5'']
       = [''/P/ts0/ts0.h5'', ''/P/m1/m1.h5'']
   \<and> distinct [''/P/ts0/ts0.h5'', ''/P/m1/m1.h5'']
   \<and> distinct [''/P/ts0/ts0.h5'', ''/P/m1/m1.h5'', ''/P/ts1/ts1.h5'']"
  using gather_append_only [OF gather_measure1] gather_measure1 by simp

lemma for_refs_no_live:
  "live_refs refs = [] \<Longrightarrow> for_refs rec env refs st = (None, st)"
proof (induction refs)
  case Nil
  show ?case by simp
next
  case (Cons r refs)
  obtain n g where r: "r = (n, g)" by (cases r)
  from Cons.prems r have "g = None \<or> g = Some []" and "live_refs refs = []"
    by (auto split: option.splits if_splits)
  with Cons.IH r show ?case by auto
qed

lemma for_refs_one_live:
  assumes "live_refs refs = [g]" and "load_entity_by_gid env g = Inr dt"
  shows "for_refs rec env refs st = rec dt st"
  using assms(1)
proof (induction refs)
  case Nil
  then show ?case by simp
next
  case (Cons r refs)
  obtain n x where r: "r = (n, x)" by (cases r)
  show ?case
  proof (cases "x = None \<or> x = Some []")
    case True
    with Cons.prems r have "live_refs refs = [g]" by auto
    with Cons.IH True r show ?thesis by auto
  next
    case False
    then obtain s where x: "x = Some s" and s: "s \<noteq> []" by (cases x) auto
    with Cons.prems r have sg: "s = g" and rest: "live_refs refs = []" by simp_all
    obtain out st' where run: "rec dt st = (out, st')" by (cases "rec dt st")
    show ?thesis
      using r x s sg assms(2) run for_refs_no_live [OF rest, of rec env st']
      by (cases out) simp_all
  qed
qed

text \<open>
  A record whose file has one reference that is set, to a second record whose file has
  none.
\<close>

lemma gather_chain_returns:
  assumes pa: "path_for_stored_index env a = Inr pa"
    and pb: "path_for_stored_index env b = Inr pb"
    and ra: "gather_references env pa = Inr refs_a"
    and la: "live_refs refs_a = [gb]"
    and lb: "load_entity_by_gid env gb = Inr b"
    and rb: "gather_references env pb = Inr refs_b"
    and nb: "live_refs refs_b = []"
  shows "gather_datatypes_for_copy (Suc (Suc n)) env a ([], []) = (None, [pa, pb], [pa, pb])"
proof -
  from ra la rb nb have ne: "pb \<noteq> pa" by auto
  show ?thesis
    using pa ra pb rb ne for_refs_one_live [OF la lb] for_refs_no_live [OF nb]
    by (simp add: Let_def)
qed

text \<open>
  Two records whose files reference each other, each through its one reference that
  is set: the calls alternate between the two files until the frames are used up.
\<close>

lemma gather_cycle_overflows:
  assumes "path_for_stored_index env a = Inr pa"
    and "path_for_stored_index env b = Inr pb"
    and "gather_references env pa = Inr refs_a"
    and "live_refs refs_a = [gb]"
    and "load_entity_by_gid env gb = Inr b"
    and "gather_references env pb = Inr refs_b"
    and "live_refs refs_b = [ga]"
    and "load_entity_by_gid env ga = Inr a"
  shows "fst (gather_datatypes_for_copy n env a st) = Some RecursionError
         \<and> snd (snd (gather_datatypes_for_copy n env a st)) = snd st @ alternate n pa pb"
  using assms
proof (induction n arbitrary: a b pa pb refs_a refs_b ga gb st)
  case 0
  show ?case by simp
next
  case (Suc n)
  obtain l opened where st: "st = (l, opened)" by (cases st)
  let ?l0 = "if pa \<in> set l then l else l @ [pa]"
  have step: "gather_datatypes_for_copy (Suc n) env a st
                = gather_datatypes_for_copy n env b (?l0, opened @ [pa])"
    using st Suc.prems(1,3) for_refs_one_live [OF Suc.prems(4,5)] by (simp add: Let_def)
  have "fst (gather_datatypes_for_copy n env b (?l0, opened @ [pa])) = Some RecursionError
        \<and> snd (snd (gather_datatypes_for_copy n env b (?l0, opened @ [pa])))
            = snd (?l0, opened @ [pa]) @ alternate n pb pa"
    by (rule Suc.IH [OF Suc.prems(2) Suc.prems(1) Suc.prems(6) Suc.prems(7) Suc.prems(8)
          Suc.prems(3) Suc.prems(4) Suc.prems(5)])
  with step st show ?case by simp
qed

lemma count_alternate:
  "x \<noteq> y \<Longrightarrow> count_list (alternate n x y) x = (n + 1) div 2
             \<and> count_list (alternate n x y) y = n div 2"
proof (induction n arbitrary: x y)
  case 0
  show ?case by simp
next
  case (Suc n)
  from Suc.prems have "y \<noteq> x" by simp
  from Suc.IH [OF this] Suc.prems show ?case by simp
qed

text \<open>
  C2, as amended: let the file of \<open>a\<close> have exactly one reference that is set, to \<open>b\<close>.
  When the file of \<open>b\<close> has no reference that is set, the traversal from \<open>a\<close> with room for
  two nested calls returns, having opened each of the two files once and listed each
  path once. When the file of \<open>b\<close> has exactly one reference that is set, back to \<open>a\<close>, the
  traversal from \<open>a\<close> never returns normally: it opens the two files alternately, once
  per remaining frame, and ends in \<^verbatim>\<open>RecursionError\<close>; there is no guard against cycles.
\<close>

theorem gather_two_records:
  assumes "path_for_stored_index env a = Inr pa"
    and "path_for_stored_index env b = Inr pb"
    and "gather_references env pa = Inr refs_a"
    and "live_refs refs_a = [gb]"
    and "load_entity_by_gid env gb = Inr b"
    and "gather_references env pb = Inr refs_b"
  shows "(live_refs refs_b = [] \<and> 2 \<le> frames
            \<longrightarrow> gather_datatypes_for_copy frames env a ([], []) = (None, [pa, pb], [pa, pb]))
         \<and> (live_refs refs_b = [ga] \<and> load_entity_by_gid env ga = Inr a
            \<longrightarrow> fst (gather_datatypes_for_copy frames env a st) = Some RecursionError
                \<and> snd (snd (gather_datatypes_for_copy frames env a st))
                    = snd st @ alternate frames pa pb)"
proof (intro conjI impI)
  assume h: "live_refs refs_b = [] \<and> 2 \<le> frames"
  then obtain m where m: "frames = Suc m" and "1 \<le> m"
    by (cases frames) auto
  then obtain n where n: "frames = Suc (Suc n)"
    by (cases m) auto
  from h have nb: "live_refs refs_b = []" by simp
  show "gather_datatypes_for_copy frames env a ([], []) = (None, [pa, pb], [pa, pb])"
    unfolding n by (rule gather_chain_returns [OF assms nb])
next
  assume c: "live_refs refs_b = [ga] \<and> load_entity_by_gid env ga = Inr a"
  then have r: "fst (gather_datatypes_for_copy frames env a st) = Some RecursionError
         \<and> snd (snd (gather_datatypes_for_copy frames env a st)) = snd st @ alternate frames pa pb"
    using gather_cycle_overflows [OF assms, of ga frames st] by simp
  from r show "fst (gather_datatypes_for_copy frames env a st) = Some RecursionError" by simp
  from r show "snd (snd (gather_datatypes_for_copy frames env a st))
                 = snd st @ alternate frames pa pb" by simp
qed

lemma measure0_chain:
  "path_for_stored_index sweep_env (Some measure0) = Inr ''/P/m0/m0.h5''"
  "path_for_stored_index sweep_env (Some ts0) = Inr ''/P/ts0/ts0.h5''"
  "gather_references sweep_env ''/P/m0/m0.h5'' = Inr [(''source'', Some ''ts0''), (''unset'', None)]"
  "live_refs [(''source'', Some ''ts0''), (''unset'', None)] = [''ts0'']"
  "load_entity_by_gid sweep_env ''ts0'' = Inr (Some ts0)"
  "gather_references sweep_env ''/P/ts0/ts0.h5'' = Inr []"
  by (simp_all add: sweep_env_def lookup_gid_def measure0_def ts0_def mk_measure_def
      mk_time_series_def)

lemma ts_cycle:
  "path_for_stored_index cyclic_env (Some ts0) = Inr ''/P/ts0/ts0.h5''"
  "path_for_stored_index cyclic_env (Some ts1) = Inr ''/P/ts1/ts1.h5''"
  "gather_references cyclic_env ''/P/ts0/ts0.h5'' = Inr [(''b'', Some ''ts1'')]"
  "live_refs [(''b'', Some ''ts1'')] = [''ts1'']"
  "load_entity_by_gid cyclic_env ''ts1'' = Inr (Some ts1)"
  "gather_references cyclic_env ''/P/ts1/ts1.h5'' = Inr [(''a'', Some ''ts0'')]"
  "live_refs [(''a'', Some ''ts0'')] = [''ts0'']"
  "load_entity_by_gid cyclic_env ''ts0'' = Inr (Some ts0)"
  by (simp_all add: cyclic_env_def sweep_env_def lookup_gid_def ts0_def ts1_def
      mk_time_series_def)

text \<open>
  The measure \<open>measure0\<close> and its source \<open>ts0\<close> in the store; \<open>ts0\<close> and \<open>ts1\<close> in the
  store where they reference each other; 996 frames are what a default limit of 1000
  leaves to a caller four frames deep.
\<close>

theorem gather_two_records_witness:
  "path_for_stored_index sweep_env (Some measure0) = Inr ''/P/m0/m0.h5''
   \<and> path_for_stored_index sweep_env (Some ts0) = Inr ''/P/ts0/ts0.h5''
   \<and> gather_references sweep_env ''/P/m0/m0.h5'' = Inr [(''source'', Some ''ts0''), (''unset'', None)]
   \<and> live_refs [(''source'', Some ''ts0''), (''unset'', None)] = [''ts0'']
   \<and> load_entity_by_gid sweep_env ''ts0'' = Inr (Some ts0)
   \<and> gather_references sweep_env ''/P/ts0/ts0.h5'' = Inr []
   \<and> gather_datatypes_for_copy 996 sweep_env (Some measure0) ([], [])
       = (None, [''/P/m0/m0.h5'', ''/P/ts0/ts0.h5''], [''/P/m0/m0.h5'', ''/P/ts0/ts0.h5''])
   \<and> path_for_stored_index cyclic_env (Some ts0) = Inr ''/P/ts0/ts0.h5''
   \<and> path_for_stored_index cyclic_env (Some ts1) = Inr ''/P/ts1/ts1.h5''
   \<and> gather_references cyclic_env ''/P/ts0/ts0.h5'' = Inr [(''b'', Some ''ts1'')]
   \<and> load_entity_by_gid cyclic_env ''ts1'' = Inr (Some ts1)
   \<and> gather_references cyclic_env ''/P/ts1/ts1.h5'' = Inr [(''a'', Some ''ts0'')]
   \<and> load_entity_by_gid cyclic_env ''ts0'' = Inr (Some ts0)
   \<and> fst (gather_datatypes_for_copy 996 cyclic_env (Some ts0) ([], [])) = Some RecursionError
   \<and> snd (snd (gather_datatypes_for_copy 996 cyclic_env (Some ts0) ([], [])))
       = alternate 996 ''/P/ts0/ts0.h5'' ''/P/ts1/ts1.h5''"
proof -
  have 1: "gather_datatypes_for_copy 996 sweep_env (Some measure0) ([], [])
       = (None, [''/P/m0/m0.h5'', ''/P/ts0/ts0.h5''], [''/P/m0/m0.h5'', ''/P/ts0/ts0.h5''])"
    using gather_two_records [OF measure0_chain(1,2,3,4,5,6), where frames = 996]
    by simp
  have 2: "fst (gather_datatypes_for_copy 996 cyclic_env (Some ts0) ([], [])) = Some RecursionError
     \<and> snd (snd (gather_datatypes_for_copy 996 cyclic_env (Some ts0) ([], [])))
       = alternate 996 ''/P/ts0/ts0.h5'' ''/P/ts1/ts1.h5''"
    using gather_two_records [OF ts_cycle(1,2,3,4,5,6),
        where ga = "''ts0''" and frames = 996 and st = "([], [])"] ts_cycle(7,8)
    by simp
  show ?thesis using 1 2 measure0_chain ts_cycle by simp
qed

text \<open>
  The claim as stated fails on the code: for two records whose files reference each
  other, a traversal with 996 frames left does not return but raises
  \<^verbatim>\<open>RecursionError\<close>, after opening the file of the first record 498 times and the file of
  the second 498 times.
\<close>

theorem gather_cycle_counterexample:
  "gather_references cyclic_env ''/P/ts0/ts0.h5'' = Inr [(''b'', Some ''ts1'')]
   \<and> load_entity_by_gid cyclic_env ''ts1'' = Inr (Some ts1)
   \<and> gather_references cyclic_env ''/P/ts1/ts1.h5'' = Inr [(''a'', Some ''ts0'')]
   \<and> load_entity_by_gid cyclic_env ''ts0'' = Inr (Some ts0)
   \<and> fst (gather_datatypes_for_copy 996 cyclic_env (Some ts0) ([], [])) = Some RecursionError
   \<and> count_list (snd (snd (gather_datatypes_for_copy 996 cyclic_env (Some ts0) ([], []))))
        ''/P/ts0/ts0.h5'' = 498
   \<and> count_list (snd (snd (gather_datatypes_for_copy 996 cyclic_env (Some ts0) ([], []))))
        ''/P/ts1/ts1.h5'' = 498"
proof -
  have ne: "''/P/ts0/ts0.h5'' \<noteq> ''/P/ts1/ts1.h5''" by simp
  have r: "fst (gather_datatypes_for_copy 996 cyclic_env (Some ts0) ([], [])) = Some RecursionError
     \<and> snd (snd (gather_datatypes_for_copy 996 cyclic_env (Some ts0) ([], [])))
       = snd ([], []) @ alternate 996 ''/P/ts0/ts0.h5'' ''/P/ts1/ts1.h5''"
    using gather_cycle_overflows [OF ts_cycle, of 996 "([], [])"] by simp
  from r count_alternate [OF ne, of 996] ts_cycle show ?thesis by simp
qed

section \<open>Deduplication of the collected files\<close>







end
